theory Spec2Isabelle
  imports Complex_Main "HOL-Library.Sublist" "HOL-Library.Multiset"
begin

section \<open>Finance tracker: metrics and scoring engine\<close>

text \<open>
  A shallow embedding of the calculation functions of
  \<^verbatim>\<open>features/budgets/budgets.py\<close>, \<^verbatim>\<open>features/analytics/analytics.py\<close>,
  \<^verbatim>\<open>features/transactions/transactions.py\<close> and
  \<^verbatim>\<open>features/smart_assistant/smart_assistant.py\<close>.

  Conventions of the embedding:
  \<^item> Python's \<^verbatim>\<open>int\<close> is \<^typ>\<open>int\<close>.
  \<^item> Python's \<^verbatim>\<open>float\<close> is idealised as an exact rational (\<^typ>\<open>rat\<close>): the
    results of \<^verbatim>\<open>/\<close> and \<^verbatim>\<open>*\<close> are the exact quotients and products, with no
    rounding and no overflow. Comparisons of such a value with an integer constant are
    exact in Python as well.
  \<^item> \<^verbatim>\<open>a / b\<close> raises \<^verbatim>\<open>ZeroDivisionError\<close> when \<^verbatim>\<open>b == 0\<close>; functions that divide
    return \<open>error + 'a\<close>, with \<open>Inl\<close> for the raised exception.
  \<^item> The three text files of the \<^verbatim>\<open>database\<close> directory are held as the lists of
    records that \<^verbatim>\<open>read_transactions\<close>, \<^verbatim>\<open>read_budgets\<close> and \<^verbatim>\<open>read_goals\<close>
    parse from them; reading and writing the files is assumed to succeed. The clock
    (\<^verbatim>\<open>datetime.now()\<close>) is read through the two month strings it is formatted to.
\<close>

subsection \<open>Data\<close>

type_synonym pyfloat = rat

datatype error = ZeroDivisionError

definition truediv :: "int \<Rightarrow> int \<Rightarrow> error + pyfloat" where
  "truediv a b = (if b = 0 then Inl ZeroDivisionError else Inr (of_int a / of_int b))"

text \<open>Sequencing of computations that may raise: the first exception ends the call.\<close>

definition and_then :: "error + 'a \<Rightarrow> ('a \<Rightarrow> error + 'b) \<Rightarrow> error + 'b" where
  "and_then m f = (case m of Inl e \<Rightarrow> Inl e | Inr x \<Rightarrow> f x)"

record transaction =
  date :: string
  trans_type :: string
  category :: string
  amount_paisa :: int
  description :: string

record budget =
  b_category :: string
  limit_paisa :: int
  period :: string

record goal =
  name :: string
  target_paisa :: int
  current_paisa :: int
  deadline :: string
  created_date :: string
  goal_type :: string

record world =
  transactions_file :: "transaction list"
  budgets_file :: "budget list"
  goals_file :: "goal list"
  now_month :: string
  prev_month :: string

definition read_transactions :: "world \<Rightarrow> transaction list" where
  "read_transactions w = transactions_file w"

definition read_budgets :: "world \<Rightarrow> budget list" where
  "read_budgets w = budgets_file w"

definition read_goals :: "world \<Rightarrow> goal list" where
  "read_goals w = goals_file w"

definition get_current_month :: "world \<Rightarrow> string" where
  "get_current_month w = now_month w"

definition get_last_month :: "world \<Rightarrow> string" where
  "get_last_month w = prev_month w"

text \<open>
  \<^verbatim>\<open>str.lower()\<close>, on the ASCII letters; every other character is left as it is.
\<close>

definition lower_char :: "char \<Rightarrow> char" where
  "lower_char c =
     (let n = (of_char c :: nat) in if 65 \<le> n \<and> n \<le> 90 then char_of (n + 32) else c)"

definition lower :: "string \<Rightarrow> string" where
  "lower s = map lower_char s"

text \<open>
  \<^verbatim>\<open>sorted(xs, key=key, reverse=True)\<close>: a stable sort in descending order of the key,
  which CPython computes by reversing the list, sorting it stably in ascending order
  and reversing the result.
\<close>

definition sorted_reverse :: "('a \<Rightarrow> int) \<Rightarrow> 'a list \<Rightarrow> 'a list" where
  "sorted_reverse key xs = rev (sort_key key (rev xs))"

subsection \<open>transactions.py: filters\<close>

definition filter_by_type :: "transaction list \<Rightarrow> string \<Rightarrow> transaction list" where
  "filter_by_type transactions ty = filter (\<lambda>t. trans_type t = ty) transactions"

definition filter_by_category :: "transaction list \<Rightarrow> string \<Rightarrow> transaction list" where
  "filter_by_category transactions cat = filter (\<lambda>t. category t = cat) transactions"

subsection \<open>budgets.py: the stored budgets\<close>

definition write_budget :: "world \<Rightarrow> string \<Rightarrow> int \<Rightarrow> string \<Rightarrow> bool \<times> world" where
  "write_budget w cat limit per =
     (True, w\<lparr>budgets_file :=
               budgets_file w @ [\<lparr>b_category = cat, limit_paisa = limit, period = per\<rparr>]\<rparr>)"

text \<open>
  The loop of \<^verbatim>\<open>update_budget\<close>: the first budget of the category gets the new
  limit and the loop breaks; the flag tells whether one was found.
\<close>

fun update_budget_loop :: "budget list \<Rightarrow> string \<Rightarrow> int \<Rightarrow> bool \<times> budget list" where
  "update_budget_loop [] cat new_limit = (False, [])"
| "update_budget_loop (b # bs) cat new_limit =
     (if b_category b = cat then (True, b\<lparr>limit_paisa := new_limit\<rparr> # bs)
      else (let (updated, bs') = update_budget_loop bs cat new_limit in (updated, b # bs')))"

definition update_budget :: "world \<Rightarrow> string \<Rightarrow> int \<Rightarrow> bool \<times> world" where
  "update_budget w cat new_limit_paisa =
     (let budgets = read_budgets w;
          (updated, budgets') = update_budget_loop budgets cat new_limit_paisa
      in if \<not> updated then (False, w)
         else (True, w\<lparr>budgets_file := budgets'\<rparr>))"

definition delete_budget :: "world \<Rightarrow> string \<Rightarrow> bool \<times> world" where
  "delete_budget w cat =
     (let budgets = read_budgets w;
          original_count = length budgets;
          budgets' = filter (\<lambda>b. b_category b \<noteq> cat) budgets
      in if length budgets' = original_count then (False, w)
         else (True, w\<lparr>budgets_file := budgets'\<rparr>))"

definition budget_exists :: "world \<Rightarrow> string \<Rightarrow> bool" where
  "budget_exists w cat = list_ex (\<lambda>b. b_category b = cat) (read_budgets w)"

fun get_budget_for_category_loop :: "budget list \<Rightarrow> string \<Rightarrow> int option" where
  "get_budget_for_category_loop [] cat = None"
| "get_budget_for_category_loop (b # bs) cat =
     (if b_category b = cat then Some (limit_paisa b) else get_budget_for_category_loop bs cat)"

definition get_budget_for_category :: "world \<Rightarrow> string \<Rightarrow> int option" where
  "get_budget_for_category w cat = get_budget_for_category_loop (read_budgets w) cat"

text \<open>
  The menu actions that change the stored budgets. What the user answers at the prompts
  is passed in: the selected category (\<open>None\<close> when the prompt is cancelled; for
  \<^verbatim>\<open>edit_budget\<close> and \<^verbatim>\<open>delete_budget_ui\<close> the prompt offers the stored budgets,
  and any category is allowed for here), the answer to the confirmation, and the amount
  entered (\<open>None\<close> when cancelled). They return the world they leave behind.
\<close>

definition set_budget :: "world \<Rightarrow> string option \<Rightarrow> bool \<Rightarrow> int option \<Rightarrow> world" where
  "set_budget w selected update_existing amount =
     (case selected of
        None \<Rightarrow> w
      | Some cat \<Rightarrow>
          if budget_exists w cat then
            (if \<not> update_existing then w
             else case amount of
                    None \<Rightarrow> w
                  | Some amt \<Rightarrow> snd (update_budget w cat amt))
          else
            (case amount of
               None \<Rightarrow> w
             | Some amt \<Rightarrow> snd (write_budget w cat amt ''monthly'')))"

definition edit_budget :: "world \<Rightarrow> string option \<Rightarrow> int option \<Rightarrow> world" where
  "edit_budget w selected amount =
     (if read_budgets w = [] then w
      else case selected of
             None \<Rightarrow> w
           | Some cat \<Rightarrow>
               (case amount of
                  None \<Rightarrow> w
                | Some new_amount \<Rightarrow> snd (update_budget w cat new_amount)))"

definition delete_budget_ui :: "world \<Rightarrow> string option \<Rightarrow> bool \<Rightarrow> world" where
  "delete_budget_ui w selected confirm =
     (if read_budgets w = [] then w
      else case selected of
             None \<Rightarrow> w
           | Some cat \<Rightarrow> if confirm then snd (delete_budget w cat) else w)"

text \<open>
  The budget collections that the menu actions can produce, starting from the empty
  file that \<^verbatim>\<open>ensure_budgets_file_exists\<close> creates.
\<close>

inductive reachable_budgets :: "budget list \<Rightarrow> bool" where
  start: "reachable_budgets []"
| by_set: "reachable_budgets (budgets_file w) \<Longrightarrow>
     reachable_budgets (budgets_file (set_budget w selected update_existing amount))"
| by_edit: "reachable_budgets (budgets_file w) \<Longrightarrow>
     reachable_budgets (budgets_file (edit_budget w selected amount))"
| by_delete: "reachable_budgets (budgets_file w) \<Longrightarrow>
     reachable_budgets (budgets_file (delete_budget_ui w selected confirm))"

subsection \<open>budgets.py: calculations\<close>

definition get_month_from_date :: "string \<Rightarrow> string" where
  "get_month_from_date date_str = take 7 date_str"

definition filter_current_month_transactions :: "world \<Rightarrow> transaction list \<Rightarrow> transaction list" where
  "filter_current_month_transactions w transactions =
     (let current_month = get_current_month w
      in filter (\<lambda>t. get_month_from_date (date t) = current_month) transactions)"

definition get_current_month_spending :: "world \<Rightarrow> string \<Rightarrow> int" where
  "get_current_month_spending w cat =
     (let transactions = read_transactions w;
          expenses = filter_by_type transactions ''expense'';
          current_month_expenses = filter_current_month_transactions w expenses;
          category_expenses = filter_by_category current_month_expenses cat
      in sum_list (map amount_paisa category_expenses))"

definition calculate_remaining :: "int \<Rightarrow> int \<Rightarrow> int" where
  "calculate_remaining budget spent = budget - spent"

definition calculate_utilization :: "int \<Rightarrow> int \<Rightarrow> error + pyfloat" where
  "calculate_utilization spent budget =
     (if budget = 0 then Inr 0
      else and_then (truediv spent budget) (\<lambda>q. Inr (q * 100)))"

definition get_budget_status :: "pyfloat \<Rightarrow> string \<times> string" where
  "get_budget_status utilization =
     (if utilization \<ge> 100 then (''Over Budget'', ''red'')
      else if utilization \<ge> 70 then (''Warning'', ''yellow'')
      else (''OK'', ''green''))"


record budget_data =
  bd_category :: string
  bd_limit_paisa :: int
  spent_paisa :: int
  remaining_paisa :: int
  utilization :: pyfloat
  status_text :: string
  status_color :: string
  bd_period :: string

fun get_budget_data_loop :: "world \<Rightarrow> budget list \<Rightarrow> error + budget_data list" where
  "get_budget_data_loop w [] = Inr []"
| "get_budget_data_loop w (b # bs) =
     (let cat = b_category b;
          limit = limit_paisa b;
          spent = get_current_month_spending w cat;
          remaining = calculate_remaining limit spent
      in and_then (calculate_utilization spent limit) (\<lambda>util.
           let (stext, scolor) = get_budget_status util;
               row = \<lparr>bd_category = cat, bd_limit_paisa = limit, spent_paisa = spent,
                      remaining_paisa = remaining, utilization = util,
                      status_text = stext, status_color = scolor, bd_period = period b\<rparr>
           in and_then (get_budget_data_loop w bs) (\<lambda>rows. Inr (row # rows))))"

definition get_budget_data :: "world \<Rightarrow> error + budget_data list" where
  "get_budget_data w = get_budget_data_loop w (read_budgets w)"

subsection \<open>analytics.py: aggregation per month\<close>

definition filter_transactions_by_month :: "transaction list \<Rightarrow> string \<Rightarrow> transaction list" where
  "filter_transactions_by_month transactions month = filter (\<lambda>t. prefix month (date t)) transactions"

definition calculate_total_spending :: "world \<Rightarrow> string \<Rightarrow> int" where
  "calculate_total_spending w month =
     (let transactions = read_transactions w;
          month_transactions = filter_transactions_by_month transactions month;
          expenses = filter_by_type month_transactions ''expense''
      in sum_list (map amount_paisa expenses))"

definition calculate_category_spending :: "world \<Rightarrow> string \<Rightarrow> string \<Rightarrow> int" where
  "calculate_category_spending w cat month =
     (let transactions = read_transactions w;
          month_transactions = filter_transactions_by_month transactions month;
          expenses = filter_by_type month_transactions ''expense'';
          category_expenses = filter_by_category expenses cat
      in sum_list (map amount_paisa category_expenses))"

definition calculate_category_percentage :: "int \<Rightarrow> int \<Rightarrow> error + pyfloat" where
  "calculate_category_percentage category_amount total_amount =
     (if total_amount = 0 then Inr 0
      else and_then (truediv category_amount total_amount) (\<lambda>q. Inr (q * 100)))"

definition calculate_total_income_month :: "world \<Rightarrow> string \<Rightarrow> int" where
  "calculate_total_income_month w month =
     (let transactions = read_transactions w;
          month_transactions = filter_transactions_by_month transactions month;
          income = filter_by_type month_transactions ''income''
      in sum_list (map amount_paisa income))"

definition calculate_monthly_savings :: "world \<Rightarrow> string \<Rightarrow> int" where
  "calculate_monthly_savings w month =
     (let income = calculate_total_income_month w month;
          expenses = calculate_total_spending w month
      in income - expenses)"

definition calculate_savings_rate :: "world \<Rightarrow> string \<Rightarrow> error + pyfloat" where
  "calculate_savings_rate w month =
     (let income = calculate_total_income_month w month
      in if income = 0 then Inr 0
         else (let savings = calculate_monthly_savings w month
               in and_then (truediv savings income) (\<lambda>q. Inr (q * 100))))"

subsection \<open>analytics.py: trends\<close>

text \<open>
  \<^verbatim>\<open>if category:\<close> holds for a category that is neither \<^verbatim>\<open>None\<close> nor the empty
  string.
\<close>

definition calculate_month_over_month_change :: "world \<Rightarrow> string option \<Rightarrow> error + pyfloat" where
  "calculate_month_over_month_change w cat_opt =
     (let current_month = get_current_month w;
          last_month = get_last_month w;
          (current, previous) =
            (case cat_opt of
               Some cat \<Rightarrow>
                 if cat \<noteq> [] then
                   (calculate_category_spending w cat current_month,
                    calculate_category_spending w cat last_month)
                 else
                   (calculate_total_spending w current_month,
                    calculate_total_spending w last_month)
             | None \<Rightarrow>
                 (calculate_total_spending w current_month,
                  calculate_total_spending w last_month))
      in if previous = 0 then (if current = 0 then Inr 0 else Inr 100)
         else and_then (truediv (current - previous) previous) (\<lambda>q. Inr (q * 100)))"

record comparison =
  current_income :: int
  last_income :: int
  income_change :: pyfloat
  current_expenses :: int
  last_expenses :: int
  expense_change :: pyfloat
  current_savings :: int
  last_savings :: int
  savings_change :: pyfloat

definition compare_with_last_month :: "world \<Rightarrow> error + comparison" where
  "compare_with_last_month w =
     (let current_month = get_current_month w;
          last_month = get_last_month w;
          cur_income = calculate_total_income_month w current_month;
          prev_income = calculate_total_income_month w last_month;
          cur_expenses = calculate_total_spending w current_month;
          prev_expenses = calculate_total_spending w last_month;
          cur_savings = calculate_monthly_savings w current_month;
          prev_savings = calculate_monthly_savings w last_month
      in and_then
           (if prev_income > 0
            then and_then (truediv (cur_income - prev_income) prev_income) (\<lambda>q. Inr (q * 100))
            else Inr 0) (\<lambda>inc_change.
         and_then
           (if prev_expenses > 0
            then and_then (truediv (cur_expenses - prev_expenses) prev_expenses) (\<lambda>q. Inr (q * 100))
            else Inr 0) (\<lambda>exp_change.
         and_then
           (if prev_savings > 0
            then and_then (truediv (cur_savings - prev_savings) prev_savings) (\<lambda>q. Inr (q * 100))
            else Inr 0) (\<lambda>sav_change.
         Inr \<lparr>current_income = cur_income, last_income = prev_income,
              income_change = inc_change,
              current_expenses = cur_expenses, last_expenses = prev_expenses,
              expense_change = exp_change,
              current_savings = cur_savings, last_savings = prev_savings,
              savings_change = sav_change\<rparr>))))"

definition detect_spending_spikes :: "world \<Rightarrow> error + transaction list" where
  "detect_spending_spikes w =
     (let current_month = get_current_month w;
          transactions = read_transactions w;
          month_transactions = filter_transactions_by_month transactions current_month;
          expenses = filter_by_type month_transactions ''expense''
      in if expenses = [] then Inr []
         else (let amounts = map amount_paisa expenses
               in and_then (truediv (sum_list amounts) (int (length amounts))) (\<lambda>avg.
                    let threshold = avg * 2;
                        spikes = filter (\<lambda>t. of_int (amount_paisa t) > threshold) expenses
                    in Inr (sorted_reverse amount_paisa spikes))))"

subsection \<open>analytics.py: the financial health score\<close>

definition calculate_savings_score :: "world \<Rightarrow> error + int" where
  "calculate_savings_score w =
     (let current_month = get_current_month w
      in and_then (calculate_savings_rate w current_month) (\<lambda>rate.
           if rate \<ge> 20 then Inr 30
           else if rate \<ge> 15 then Inr 22
           else if rate \<ge> 10 then Inr 15
           else if rate \<ge> 5 then Inr 8
           else Inr 0))"

definition calculate_budget_adherence_score :: "world \<Rightarrow> error + int" where
  "calculate_budget_adherence_score w =
     (let budgets = read_budgets w
      in if budgets = [] then Inr 15
         else and_then (get_budget_data w) (\<lambda>rows.
           if rows = [] then Inr 15
           else (let ok_count = int (length (filter (\<lambda>b. utilization b < 100) rows));
                     total_count = int (length rows)
                 in if total_count = 0 then Inr 15
                    else and_then (truediv ok_count total_count) (\<lambda>q.
                      let ok_percentage = q * 100
                      in if ok_percentage = 100 then Inr 25
                         else if ok_percentage \<ge> 75 then Inr 18
                         else if ok_percentage \<ge> 50 then Inr 12
                         else if ok_percentage \<ge> 25 then Inr 6
                         else Inr 0))))"

definition calculate_balance_score :: "world \<Rightarrow> int" where
  "calculate_balance_score w =
     (let current_month = get_current_month w;
          savings = calculate_monthly_savings w current_month
      in if savings > 0 then 25
         else if savings = 0 then 15
         else 0)"

definition calculate_consistency_score :: "world \<Rightarrow> error + int" where
  "calculate_consistency_score w =
     and_then (detect_spending_spikes w) (\<lambda>spikes.
       let spike_count = length spikes
       in if spike_count = 0 then Inr 20
          else if spike_count = 1 then Inr 15
          else if spike_count = 2 then Inr 10
          else Inr 5)"

definition calculate_overall_health_score :: "world \<Rightarrow> error + int" where
  "calculate_overall_health_score w =
     and_then (calculate_savings_score w) (\<lambda>savings_score.
     and_then (calculate_budget_adherence_score w) (\<lambda>budget_score.
     let balance_score = calculate_balance_score w
     in and_then (calculate_consistency_score w) (\<lambda>consistency_score.
          Inr (savings_score + budget_score + balance_score + consistency_score))))"

subsection \<open>smart assistant: goals\<close>

text \<open>
  The loop of \<^verbatim>\<open>update_goal_progress\<close>: the first goal of that name (compared in
  lower case) gets the amount added, capped at its target, and the loop breaks.
\<close>

fun update_goal_progress_loop :: "goal list \<Rightarrow> string \<Rightarrow> int \<Rightarrow> bool \<times> goal list" where
  "update_goal_progress_loop [] goal_name additional_amount = (False, [])"
| "update_goal_progress_loop (g # gs) goal_name additional_amount =
     (if lower (name g) = lower goal_name then
        (let g1 = g\<lparr>current_paisa := current_paisa g + additional_amount\<rparr>;
             g2 = (if current_paisa g1 > target_paisa g1
                   then g1\<lparr>current_paisa := target_paisa g1\<rparr> else g1)
         in (True, g2 # gs))
      else (let (updated, gs') = update_goal_progress_loop gs goal_name additional_amount
            in (updated, g # gs')))"

definition update_goal_progress :: "world \<Rightarrow> string \<Rightarrow> int \<Rightarrow> bool \<times> world" where
  "update_goal_progress w goal_name additional_amount =
     (let goals = read_goals w;
          (updated, goals') = update_goal_progress_loop goals goal_name additional_amount
      in if \<not> updated then (False, w)
         else (True, w\<lparr>goals_file := goals'\<rparr>))"

fun get_goal_by_name_loop :: "goal list \<Rightarrow> string \<Rightarrow> goal option" where
  "get_goal_by_name_loop [] nm = None"
| "get_goal_by_name_loop (g # gs) nm =
     (if lower (name g) = lower nm then Some g else get_goal_by_name_loop gs nm)"

definition get_goal_by_name :: "world \<Rightarrow> string \<Rightarrow> goal option" where
  "get_goal_by_name w nm = get_goal_by_name_loop (read_goals w) nm"

definition calculate_goal_progress :: "goal \<Rightarrow> error + pyfloat" where
  "calculate_goal_progress g =
     (if target_paisa g = 0 then Inr 100
      else and_then (truediv (current_paisa g) (target_paisa g)) (\<lambda>q.
             let progress = q * 100 in Inr (min 100 progress)))"

subsection \<open>Sample data\<close>

definition tx :: "string \<Rightarrow> string \<Rightarrow> string \<Rightarrow> int \<Rightarrow> transaction" where
  "tx d ty cat amt =
     \<lparr>date = d, trans_type = ty, category = cat, amount_paisa = amt, description = []\<rparr>"

definition empty_world :: world where
  "empty_world =
     \<lparr>transactions_file = [], budgets_file = [], goals_file = [],
      now_month = ''2024-11'', prev_month = ''2024-10''\<rparr>"

text \<open>One expense of 100000 paisa among four of 20000 in the current month.\<close>

definition spike_world :: world where
  "spike_world = empty_world\<lparr>transactions_file :=
     [tx ''2024-11-02'' ''expense'' ''Food'' 20000,
      tx ''2024-11-03'' ''expense'' ''Bills'' 100000,
      tx ''2024-11-05'' ''income'' ''Salary'' 300000,
      tx ''2024-11-09'' ''expense'' ''Food'' 20000,
      tx ''2024-10-11'' ''income'' ''Salary'' 250000,
      tx ''2024-11-12'' ''expense'' ''Transport'' 20000,
      tx ''2024-11-20'' ''expense'' ''Health'' 20000]\<rparr>"

text \<open>Expenses of 500000 paisa this month and 400000 last month.\<close>

definition change_world :: world where
  "change_world = empty_world\<lparr>transactions_file :=
     [tx ''2024-10-07'' ''expense'' ''Bills'' 400000,
      tx ''2024-11-04'' ''expense'' ''Bills'' 300000,
      tx ''2024-11-15'' ''expense'' ''Food'' 200000]\<rparr>"

text \<open>An income of 100000 paisa and expenses of 80000: a savings rate of 20 percent.\<close>

definition savings_world :: world where
  "savings_world = empty_world\<lparr>transactions_file :=
     [tx ''2024-11-01'' ''income'' ''Salary'' 100000,
      tx ''2024-11-04'' ''expense'' ''Bills'' 50000,
      tx ''2024-11-15'' ''expense'' ''Food'' 30000]\<rparr>"

definition mk_goal :: "string \<Rightarrow> int \<Rightarrow> int \<Rightarrow> goal" where
  "mk_goal nm target current =
     \<lparr>name = nm, target_paisa = target, current_paisa = current,
      deadline = ''2025-06-30'', created_date = ''2024-01-01'', goal_type = ''General Savings''\<rparr>"

definition goals_world :: world where
  "goals_world = empty_world\<lparr>goals_file :=
     [mk_goal ''Car'' 900000 100000, mk_goal ''Trip'' 50000 40000]\<rparr>"

definition food_budget_world :: world where
  "food_budget_world = set_budget empty_world (Some ''Food'') False (Some 500000)"

section \<open>Properties\<close>

subsection \<open>Exceptions and percentages\<close>

lemma and_then_Inr: "and_then (Inr x) f = f x"
  by (simp add: and_then_def)

lemma and_then_Inl: "and_then (Inl e) f = Inl e"
  by (simp add: and_then_def)

lemma calculate_utilization_value:
  "calculate_utilization spent budget =
     Inr (if budget = 0 then 0 else of_int spent / of_int budget * 100)"
  by (simp add: calculate_utilization_def truediv_def and_then_Inr)

lemma calculate_savings_rate_value:
  "calculate_savings_rate w m =
     Inr (if calculate_total_income_month w m = 0 then 0
          else of_int (calculate_monthly_savings w m)
               / of_int (calculate_total_income_month w m) * 100)"
  by (simp add: calculate_savings_rate_def truediv_def and_then_Inr Let_def)

text \<open>
  C9: the percentage operations return 0 when the denominator is 0 and never raise
  \<^verbatim>\<open>ZeroDivisionError\<close>, whatever the numerator and the denominator: both
  \<^verbatim>\<open>calculate_category_percentage\<close> and \<^verbatim>\<open>calculate_utilization\<close> return a value
  (never \<open>Inl\<close>), and that value is 0 for a zero total or a zero limit.
\<close>

theorem percentage_zero_denominator_never_raises:
  "calculate_category_percentage p 0 = Inr 0
   \<and> calculate_utilization p 0 = Inr 0
   \<and> (\<exists>r. calculate_category_percentage p whole = Inr r)
   \<and> (\<exists>r. calculate_utilization p limit = Inr r)"
  by (simp add: calculate_category_percentage_def calculate_utilization_def truediv_def
      and_then_Inr)

theorem percentage_zero_denominator_never_raises_witness:
  "calculate_category_percentage 250 0 = Inr 0 \<and> calculate_utilization 250 0 = Inr 0"
  using percentage_zero_denominator_never_raises [of 250 0 0]
  by simp

subsection \<open>Budget utilization and its tiers\<close>

text \<open>
  C3: the utilization of a budget is \<open>spent / limit * 100\<close>, and 0 when the limit is 0;
  it is not clamped, so it exceeds 100 when more than the limit is spent. The status of a
  utilization \<open>u\<close> is \<open>OK\<close> when \<open>u < 70\<close>, \<open>Warning\<close> when \<open>70 \<le> u < 100\<close> and
  \<open>Over Budget\<close> when \<open>u \<ge> 100\<close>.
\<close>

theorem utilization_formula_and_status_tiers:
  "calculate_utilization spent limit =
     Inr (if limit = 0 then 0 else of_int spent / of_int limit * 100)
   \<and> fst (get_budget_status u) =
       (if u < 70 then ''OK'' else if u < 100 then ''Warning'' else ''Over Budget'')"
  by (simp add: calculate_utilization_value get_budget_status_def)

theorem utilization_formula_and_status_tiers_witness:
  "calculate_utilization 300000 200000 = Inr 150
   \<and> fst (get_budget_status 150) = ''Over Budget''
   \<and> fst (get_budget_status 70) = ''Warning''
   \<and> fst (get_budget_status (699 / 10)) = ''OK''"
  using utilization_formula_and_status_tiers [of 300000 200000 150]
    utilization_formula_and_status_tiers [of 0 0 70]
    utilization_formula_and_status_tiers [of 0 0 "699 / 10"]
  by simp





subsection \<open>Savings score\<close>

text \<open>
  C6: the savings rate of the current month is always defined, and the savings score
  is 30 for a rate of at least 20, 22 for a rate in \<open>[15, 20)\<close>, 15 for a rate in
  \<open>[10, 15)\<close>, 8 for a rate in \<open>[5, 10)\<close> and 0 for a rate below 5. The bounds are
  inclusive below: a rate of exactly 20 scores 30.
\<close>

theorem savings_score_tiers:
  "\<exists>r. calculate_savings_rate w (get_current_month w) = Inr r
      \<and> (r \<ge> 20 \<longrightarrow> calculate_savings_score w = Inr 30)
      \<and> (15 \<le> r \<and> r < 20 \<longrightarrow> calculate_savings_score w = Inr 22)
      \<and> (10 \<le> r \<and> r < 15 \<longrightarrow> calculate_savings_score w = Inr 15)
      \<and> (5 \<le> r \<and> r < 10 \<longrightarrow> calculate_savings_score w = Inr 8)
      \<and> (r < 5 \<longrightarrow> calculate_savings_score w = Inr 0)"
  by (simp add: calculate_savings_score_def calculate_savings_rate_value and_then_Inr Let_def)

theorem savings_score_tiers_witness:
  "calculate_savings_rate savings_world (get_current_month savings_world) = Inr 20
   \<and> calculate_savings_score savings_world = Inr 30"
proof -
  have rate: "calculate_savings_rate savings_world (get_current_month savings_world) = Inr 20"
    by code_simp
  from savings_score_tiers [of savings_world] rate show ?thesis
    by auto
qed

subsection \<open>Change from last month\<close>

text \<open>
  C2: with \<open>current\<close> and \<open>previous\<close> the total spending of the current and of the last
  month, \<^verbatim>\<open>calculate_month_over_month_change\<close> returns 0 when both are zero, 100 when
  only \<open>previous\<close> is zero, and \<open>(current - previous) / previous * 100\<close> otherwise; it
  never raises. For 500000 after 400000 the result is 25.
\<close>

theorem month_over_month_change_value:
  assumes "current = calculate_total_spending w (get_current_month w)"
    and "previous = calculate_total_spending w (get_last_month w)"
  shows "(previous = 0 \<and> current = 0 \<longrightarrow> calculate_month_over_month_change w None = Inr 0)
       \<and> (previous = 0 \<and> current \<noteq> 0 \<longrightarrow> calculate_month_over_month_change w None = Inr 100)
       \<and> (previous \<noteq> 0 \<longrightarrow>
            calculate_month_over_month_change w None =
              Inr ((of_int current - of_int previous) / of_int previous * 100))"
  using assms
  by (simp add: calculate_month_over_month_change_def truediv_def and_then_Inr Let_def)

theorem month_over_month_change_value_witness:
  "calculate_total_spending change_world (get_current_month change_world) = 500000
   \<and> calculate_total_spending change_world (get_last_month change_world) = 400000
   \<and> calculate_month_over_month_change change_world None = Inr 25"
proof -
  have cur: "calculate_total_spending change_world (get_current_month change_world) = 500000"
    by code_simp
  have prev: "calculate_total_spending change_world (get_last_month change_world) = 400000"
    by code_simp
  from month_over_month_change_value [OF cur [symmetric] prev [symmetric]]
  have "calculate_month_over_month_change change_world None = Inr 25"
    by simp
  with cur prev show ?thesis by simp
qed

text \<open>The same holds for the spending of one category, when a category is given.\<close>

lemma month_over_month_change_category:
  assumes "current = calculate_category_spending w (c # cs) (get_current_month w)"
    and "previous = calculate_category_spending w (c # cs) (get_last_month w)"
  shows "calculate_month_over_month_change w (Some (c # cs)) =
           Inr (if previous = 0 \<and> current = 0 then 0
                else if previous = 0 then 100
                else (of_int current - of_int previous) / of_int previous * 100)"
  using assms
  by (simp add: calculate_month_over_month_change_def truediv_def and_then_Inr Let_def)

text \<open>
  C10: \<^verbatim>\<open>compare_with_last_month\<close> never raises, and each of its three changes is
  \<open>(current - last) / last * 100\<close> when the value of last month is strictly positive and
  0 otherwise. When last month's expenses are zero and this month's are not, it reports
  an expense change of 0, where \<^verbatim>\<open>calculate_month_over_month_change\<close> returns 100.
\<close>

theorem compare_with_last_month_changes:
  "\<exists>c. compare_with_last_month w = Inr c
     \<and> current_income c = calculate_total_income_month w (get_current_month w)
     \<and> last_income c = calculate_total_income_month w (get_last_month w)
     \<and> current_expenses c = calculate_total_spending w (get_current_month w)
     \<and> last_expenses c = calculate_total_spending w (get_last_month w)
     \<and> current_savings c = calculate_monthly_savings w (get_current_month w)
     \<and> last_savings c = calculate_monthly_savings w (get_last_month w)
     \<and> income_change c =
         (if last_income c > 0
          then of_int (current_income c - last_income c) / of_int (last_income c) * 100
          else 0)
     \<and> expense_change c =
         (if last_expenses c > 0
          then of_int (current_expenses c - last_expenses c) / of_int (last_expenses c) * 100
          else 0)
     \<and> savings_change c =
         (if last_savings c > 0
          then of_int (current_savings c - last_savings c) / of_int (last_savings c) * 100
          else 0)
     \<and> (last_expenses c = 0 \<and> current_expenses c \<noteq> 0 \<longrightarrow>
          expense_change c = 0 \<and> calculate_month_over_month_change w None = Inr 100)"
  by (simp add: compare_with_last_month_def calculate_month_over_month_change_def
      truediv_def and_then_Inr Let_def)

theorem compare_with_last_month_changes_witness:
  "calculate_total_spending spike_world (get_last_month spike_world) = 0
   \<and> calculate_total_spending spike_world (get_current_month spike_world) = 180000
   \<and> (\<exists>c. compare_with_last_month spike_world = Inr c \<and> expense_change c = 0
          \<and> income_change c = 20)
   \<and> calculate_month_over_month_change spike_world None = Inr 100"
proof -
  have prev: "calculate_total_spending spike_world (get_last_month spike_world) = 0"
    by code_simp
  have cur: "calculate_total_spending spike_world (get_current_month spike_world) = 180000"
    by code_simp
  have inc: "calculate_total_income_month spike_world (get_current_month spike_world) = 300000"
    by code_simp
  have pinc: "calculate_total_income_month spike_world (get_last_month spike_world) = 250000"
    by code_simp
  from compare_with_last_month_changes [of spike_world] obtain c where
    c: "compare_with_last_month spike_world = Inr c"
      "current_income c = calculate_total_income_month spike_world (get_current_month spike_world)"
      "last_income c = calculate_total_income_month spike_world (get_last_month spike_world)"
      "current_expenses c = calculate_total_spending spike_world (get_current_month spike_world)"
      "last_expenses c = calculate_total_spending spike_world (get_last_month spike_world)"
      "income_change c =
         (if last_income c > 0
          then of_int (current_income c - last_income c) / of_int (last_income c) * 100
          else 0)"
      "last_expenses c = 0 \<and> current_expenses c \<noteq> 0 \<longrightarrow>
          expense_change c = 0 \<and> calculate_month_over_month_change spike_world None = Inr 100"
    by blast
  from c prev cur have "expense_change c = 0"
    and "calculate_month_over_month_change spike_world None = Inr 100"
    by simp_all
  moreover from c inc pinc have "income_change c = 20" by simp
  ultimately show ?thesis using prev cur c(1) by simp
qed

subsection \<open>Spending spikes\<close>





subsection \<open>Health score of an empty ledger\<close>

lemma no_transactions_totals:
  assumes "read_transactions w = []"
  shows "calculate_total_income_month w m = 0" and "calculate_total_spending w m = 0"
    and "detect_spending_spikes w = Inr []"
  using assms
  by (simp_all add: calculate_total_income_month_def calculate_total_spending_def
      detect_spending_spikes_def filter_transactions_by_month_def filter_by_type_def)

text \<open>
  C1: with no transaction at all and no budget set, the health score is 50: 0 for the
  savings rate, 15 for the budget adherence (no budgets), 15 for the balance (break-even)
  and 20 for the consistency (no spikes).
\<close>

theorem empty_ledger_health_score:
  assumes "read_transactions w = []" and "read_budgets w = []"
  shows "calculate_overall_health_score w = Inr 50
         \<and> calculate_savings_score w = Inr 0
         \<and> calculate_budget_adherence_score w = Inr 15
         \<and> calculate_balance_score w = 15
         \<and> calculate_consistency_score w = Inr 20"
proof -
  have s: "calculate_savings_score w = Inr 0"
    by (simp add: calculate_savings_score_def calculate_savings_rate_def
        no_transactions_totals [OF assms(1)] and_then_Inr)
  have b: "calculate_budget_adherence_score w = Inr 15"
    by (simp add: calculate_budget_adherence_score_def assms(2))
  have bal: "calculate_balance_score w = 15"
    by (simp add: calculate_balance_score_def calculate_monthly_savings_def
        no_transactions_totals [OF assms(1)])
  have c: "calculate_consistency_score w = Inr 20"
    by (simp add: calculate_consistency_score_def no_transactions_totals [OF assms(1)]
        and_then_Inr)
  from s b bal c show ?thesis
    by (simp add: calculate_overall_health_score_def and_then_Inr)
qed

theorem empty_ledger_health_score_witness:
  "read_transactions empty_world = [] \<and> read_budgets empty_world = []
   \<and> calculate_overall_health_score empty_world = Inr 50"
proof -
  have t: "read_transactions empty_world = []"
    by (simp add: read_transactions_def empty_world_def)
  have b: "read_budgets empty_world = []"
    by (simp add: read_budgets_def empty_world_def)
  from empty_ledger_health_score [OF t b] t b show ?thesis by simp
qed

subsection \<open>Goal progress\<close>

lemma update_goal_progress_loop_found:
  "get_goal_by_name_loop gs nm = Some g \<Longrightarrow>
   fst (update_goal_progress_loop gs nm amt)
   \<and> get_goal_by_name_loop (snd (update_goal_progress_loop gs nm amt)) nm =
       Some (g\<lparr>current_paisa := min (current_paisa g + amt) (target_paisa g)\<rparr>)"
proof (induction gs)
  case Nil
  then show ?case by simp
next
  case (Cons a gs)
  show ?case
  proof (cases "lower (name a) = lower nm")
    case True
    with Cons.prems have "a = g" by simp
    with True show ?thesis
      by (simp add: Let_def min_def)
  next
    case False
    with Cons show ?thesis
      by (simp add: split_beta)
  qed
qed

lemma update_goal_progress_loop_invariant:
  assumes "0 < amt"
    and "\<forall>h \<in> set gs. 0 \<le> current_paisa h \<and> current_paisa h \<le> target_paisa h"
  shows "\<forall>h \<in> set (snd (update_goal_progress_loop gs nm amt)).
           0 \<le> current_paisa h \<and> current_paisa h \<le> target_paisa h"
  using assms(2)
proof (induction gs)
  case Nil
  then show ?case by simp
next
  case (Cons a gs)
  show ?case
  proof (cases "lower (name a) = lower nm")
    case True
    with Cons.prems assms(1) show ?thesis
      by (auto simp: Let_def)
  next
    case False
    with Cons show ?thesis
      by (simp add: split_beta)
  qed
qed

lemma calculate_goal_progress_complete:
  "current_paisa g = target_paisa g \<Longrightarrow> calculate_goal_progress g = Inr 100"
  by (simp add: calculate_goal_progress_def truediv_def and_then_Inr)

text \<open>
  C7: when the goal of that name has \<open>0 \<le> current \<le> target\<close> and the amount added is
  positive, \<^verbatim>\<open>update_goal_progress\<close> succeeds and the goal still has
  \<open>0 \<le> current \<le> target\<close>, with its target unchanged: an amount that stays within the
  target is added, and an amount that goes beyond it leaves \<open>current = target\<close>, for
  which \<^verbatim>\<open>calculate_goal_progress\<close> returns 100. \<^verbatim>\<open>calculate_goal_progress\<close> returns
  100 for every goal whose target is 0. If all stored goals satisfy
  \<open>0 \<le> current \<le> target\<close> before the update, all do after it.
\<close>

theorem update_goal_progress_clamped:
  assumes "0 < amt"
    and "get_goal_by_name w nm = Some g"
    and "0 \<le> current_paisa g" and "current_paisa g \<le> target_paisa g"
    and "w' = snd (update_goal_progress w nm amt)"
  shows "\<exists>g'. fst (update_goal_progress w nm amt)
           \<and> get_goal_by_name w' nm = Some g'
           \<and> 0 \<le> current_paisa g' \<and> current_paisa g' \<le> target_paisa g'
           \<and> target_paisa g' = target_paisa g
           \<and> (current_paisa g + amt \<le> target_paisa g \<longrightarrow>
                current_paisa g' = current_paisa g + amt)
           \<and> (current_paisa g + amt > target_paisa g \<longrightarrow>
                current_paisa g' = target_paisa g' \<and> calculate_goal_progress g' = Inr 100)
           \<and> (\<forall>h. target_paisa h = 0 \<longrightarrow> calculate_goal_progress h = Inr 100)
           \<and> ((\<forall>h \<in> set (read_goals w). 0 \<le> current_paisa h \<and> current_paisa h \<le> target_paisa h)
                \<longrightarrow> (\<forall>h \<in> set (read_goals w').
                       0 \<le> current_paisa h \<and> current_paisa h \<le> target_paisa h))"
proof -
  let ?g' = "g\<lparr>current_paisa := min (current_paisa g + amt) (target_paisa g)\<rparr>"
  let ?r = "update_goal_progress_loop (read_goals w) nm amt"
  from assms(2) have found: "get_goal_by_name_loop (read_goals w) nm = Some g"
    by (simp add: get_goal_by_name_def)
  from update_goal_progress_loop_found [OF found, of amt]
  have upd: "fst ?r" and look: "get_goal_by_name_loop (snd ?r) nm = Some ?g'"
    by simp_all
  from upd have w': "update_goal_progress w nm amt = (True, w\<lparr>goals_file := snd ?r\<rparr>)"
    by (simp add: update_goal_progress_def split_beta Let_def)
  with assms(5) have goals': "read_goals w' = snd ?r"
    by (simp add: read_goals_def)
  have 1: "fst (update_goal_progress w nm amt)"
    using w' by simp
  have 2: "get_goal_by_name w' nm = Some ?g'"
    using look goals' by (simp add: get_goal_by_name_def)
  have 3: "0 \<le> current_paisa ?g' \<and> current_paisa ?g' \<le> target_paisa ?g'"
    using assms(1,3,4) by simp
  have 4: "current_paisa g + amt > target_paisa g \<longrightarrow>
             current_paisa ?g' = target_paisa ?g' \<and> calculate_goal_progress ?g' = Inr 100"
    by (simp add: calculate_goal_progress_complete)
  have 5: "\<forall>h. target_paisa h = 0 \<longrightarrow> calculate_goal_progress h = Inr 100"
    by (simp add: calculate_goal_progress_def)
  have 6: "(\<forall>h \<in> set (read_goals w). 0 \<le> current_paisa h \<and> current_paisa h \<le> target_paisa h)
             \<longrightarrow> (\<forall>h \<in> set (read_goals w').
                    0 \<le> current_paisa h \<and> current_paisa h \<le> target_paisa h)"
    unfolding goals'
    by (intro impI update_goal_progress_loop_invariant [OF assms(1)])
  have 7: "current_paisa g + amt \<le> target_paisa g \<longrightarrow> current_paisa ?g' = current_paisa g + amt"
    by simp
  have 8: "target_paisa ?g' = target_paisa g" by simp
  show ?thesis
    apply (rule exI [of _ ?g'])
    apply (intro conjI)
            apply (rule 1)
           apply (rule 2)
          apply (rule 3 [THEN conjunct1])
         apply (rule 3 [THEN conjunct2])
        apply (rule 8)
       apply (rule 7)
      apply (rule 4)
     apply (rule 5)
    apply (rule 6)
    done
qed

theorem update_goal_progress_clamped_witness:
  "get_goal_by_name goals_world ''TRIP'' = Some (mk_goal ''Trip'' 50000 40000)
   \<and> (\<exists>g'. get_goal_by_name (snd (update_goal_progress goals_world ''TRIP'' 20000)) ''TRIP'' = Some g'
         \<and> current_paisa g' = 50000 \<and> calculate_goal_progress g' = Inr 100)"
proof -
  have a: "(0::int) < 20000" by simp
  have f: "get_goal_by_name goals_world ''TRIP'' = Some (mk_goal ''Trip'' 50000 40000)"
    by code_simp
  have c0: "0 \<le> current_paisa (mk_goal ''Trip'' 50000 40000)"
    and c1: "current_paisa (mk_goal ''Trip'' 50000 40000) \<le> target_paisa (mk_goal ''Trip'' 50000 40000)"
    by (simp_all add: mk_goal_def)
  from update_goal_progress_clamped [OF a f c0 c1 refl]
  obtain g' where "get_goal_by_name (snd (update_goal_progress goals_world ''TRIP'' 20000)) ''TRIP'' = Some g'"
    and "target_paisa g' = target_paisa (mk_goal ''Trip'' 50000 40000)"
    and "current_paisa (mk_goal ''Trip'' 50000 40000) + 20000 > target_paisa (mk_goal ''Trip'' 50000 40000)
          \<longrightarrow> current_paisa g' = target_paisa g' \<and> calculate_goal_progress g' = Inr 100"
    by blast
  then show ?thesis using f
    by (auto simp: mk_goal_def)
qed

subsection \<open>Stored budgets\<close>

lemma update_budget_loop_categories:
  "map b_category (snd (update_budget_loop bs cat l)) = map b_category bs"
  by (induction bs) (simp_all add: split_beta)

lemma update_budget_loop_found:
  "fst (update_budget_loop bs cat l) = list_ex (\<lambda>b. b_category b = cat) bs"
  by (induction bs) (simp_all add: split_beta)

lemma update_budget_loop_lookup:
  "list_ex (\<lambda>b. b_category b = cat) bs \<Longrightarrow>
   get_budget_for_category_loop (snd (update_budget_loop bs cat l)) cat = Some l"
  by (induction bs) (auto simp: split_beta)

lemma update_budget_loop_others:
  "c \<noteq> cat \<Longrightarrow>
   get_budget_for_category_loop (snd (update_budget_loop bs cat l)) c =
   get_budget_for_category_loop bs c"
  by (induction bs) (simp_all add: split_beta)

lemma update_budget_categories:
  "map b_category (budgets_file (snd (update_budget w cat l))) = map b_category (budgets_file w)"
  by (simp add: update_budget_def read_budgets_def split_beta Let_def
      update_budget_loop_categories)

lemma delete_budget_distinct:
  "distinct (map b_category (budgets_file w)) \<Longrightarrow>
   distinct (map b_category (budgets_file (snd (delete_budget w cat))))"
  by (simp add: delete_budget_def read_budgets_def Let_def distinct_map_filter)

lemma budget_exists_iff:
  "budget_exists w cat \<longleftrightarrow> cat \<in> set (map b_category (budgets_file w))"
  by (auto simp: budget_exists_def read_budgets_def list_ex_iff)

lemma set_budget_distinct:
  assumes "distinct (map b_category (budgets_file w))"
  shows "distinct (map b_category (budgets_file (set_budget w selected update_existing amount)))"
proof (cases selected)
  case None
  with assms show ?thesis by (simp add: set_budget_def)
next
  case (Some cat)
  show ?thesis
  proof (cases amount)
    case None
    with Some assms show ?thesis by (simp add: set_budget_def)
  next
    case (Some amt)
    show ?thesis
    proof (cases "budget_exists w cat")
      case True
      with \<open>selected = Some cat\<close> Some assms show ?thesis
        by (simp add: set_budget_def update_budget_categories)
    next
      case False
      then have "cat \<notin> set (map b_category (budgets_file w))"
        by (simp add: budget_exists_iff)
      with False \<open>selected = Some cat\<close> Some assms show ?thesis
        by (simp add: set_budget_def write_budget_def)
    qed
  qed
qed

lemma edit_budget_distinct:
  assumes "distinct (map b_category (budgets_file w))"
  shows "distinct (map b_category (budgets_file (edit_budget w selected amount)))"
  using assms
  by (simp add: edit_budget_def update_budget_categories split: option.split)

lemma delete_budget_ui_distinct:
  assumes "distinct (map b_category (budgets_file w))"
  shows "distinct (map b_category (budgets_file (delete_budget_ui w selected confirm)))"
  using assms
  by (simp add: delete_budget_ui_def delete_budget_distinct split: option.split)

lemma reachable_budgets_distinct:
  "reachable_budgets bs \<Longrightarrow> distinct (map b_category bs)"
proof (induction rule: reachable_budgets.induct)
  case start
  show ?case by simp
next
  case (by_set w selected update_existing amount)
  from by_set.IH show ?case by (rule set_budget_distinct)
next
  case (by_edit w selected amount)
  from by_edit.IH show ?case by (rule edit_budget_distinct)
next
  case (by_delete w selected confirm)
  from by_delete.IH show ?case by (rule delete_budget_ui_distinct)
qed

lemma set_budget_existing:
  assumes "budget_exists w cat"
  shows "set_budget w (Some cat) True (Some amt) = snd (update_budget w cat amt)"
    and "fst (update_budget w cat amt)"
    and "get_budget_for_category (snd (update_budget w cat amt)) cat = Some amt"
  using assms
  by (simp_all add: set_budget_def update_budget_def get_budget_for_category_def
      budget_exists_def read_budgets_def split_beta Let_def
      update_budget_loop_found update_budget_loop_lookup)

lemma update_budget_others:
  "c \<noteq> cat \<Longrightarrow>
   get_budget_for_category (snd (update_budget w cat amt)) c = get_budget_for_category w c"
  by (simp add: update_budget_def get_budget_for_category_def read_budgets_def split_beta Let_def
      update_budget_loop_others)

text \<open>
  C8: every budget collection that the menu actions reach from the empty file has at
  most one record per category. Setting a budget for a category that has one goes
  through \<^verbatim>\<open>update_budget\<close>, which succeeds, keeps the sequence of categories as it is
  (no second record), gives the category the new limit and leaves the limit of every
  other category alone; setting a budget for a category that has none appends one
  record for it.
\<close>

theorem budgets_one_per_category_upsert:
  "(reachable_budgets bs \<longrightarrow> distinct (map b_category bs))
   \<and> (budget_exists w cat \<longrightarrow>
        set_budget w (Some cat) True (Some amt) = snd (update_budget w cat amt)
        \<and> fst (update_budget w cat amt)
        \<and> map b_category (budgets_file (snd (update_budget w cat amt)))
            = map b_category (budgets_file w)
        \<and> get_budget_for_category (snd (update_budget w cat amt)) cat = Some amt
        \<and> (\<forall>c. c \<noteq> cat \<longrightarrow>
              get_budget_for_category (snd (update_budget w cat amt)) c
              = get_budget_for_category w c))
   \<and> (\<not> budget_exists w cat \<longrightarrow>
        budgets_file (set_budget w (Some cat) update_existing (Some amt))
        = budgets_file w @ [\<lparr>b_category = cat, limit_paisa = amt, period = ''monthly''\<rparr>])"
proof (intro conjI impI allI)
  assume "reachable_budgets bs"
  then show "distinct (map b_category bs)" by (rule reachable_budgets_distinct)
next
  assume "budget_exists w cat"
  then show "set_budget w (Some cat) True (Some amt) = snd (update_budget w cat amt)"
    by (rule set_budget_existing(1))
next
  assume "budget_exists w cat"
  then show "fst (update_budget w cat amt)"
    by (rule set_budget_existing(2))
next
  show "map b_category (budgets_file (snd (update_budget w cat amt)))
            = map b_category (budgets_file w)"
    by (rule update_budget_categories)
next
  assume "budget_exists w cat"
  then show "get_budget_for_category (snd (update_budget w cat amt)) cat = Some amt"
    by (rule set_budget_existing(3))
next
  fix c assume "c \<noteq> cat"
  then show "get_budget_for_category (snd (update_budget w cat amt)) c
              = get_budget_for_category w c"
    by (rule update_budget_others)
next
  assume "\<not> budget_exists w cat"
  then show "budgets_file (set_budget w (Some cat) update_existing (Some amt))
        = budgets_file w @ [\<lparr>b_category = cat, limit_paisa = amt, period = ''monthly''\<rparr>]"
    by (simp add: set_budget_def write_budget_def)
qed

theorem budgets_one_per_category_upsert_witness:
  "reachable_budgets (budgets_file food_budget_world)
   \<and> budgets_file food_budget_world
       = [\<lparr>b_category = ''Food'', limit_paisa = 500000, period = ''monthly''\<rparr>]
   \<and> budget_exists food_budget_world ''Food''
   \<and> budgets_file (set_budget food_budget_world (Some ''Food'') True (Some 700000))
       = [\<lparr>b_category = ''Food'', limit_paisa = 700000, period = ''monthly''\<rparr>]"
proof -
  have "reachable_budgets (budgets_file empty_world)"
    by (simp add: empty_world_def reachable_budgets.start)
  then have r: "reachable_budgets (budgets_file food_budget_world)"
    unfolding food_budget_world_def by (rule reachable_budgets.by_set)
  have n: "\<not> budget_exists empty_world ''Food''"
    by (simp add: budget_exists_def read_budgets_def empty_world_def)
  have b: "budgets_file food_budget_world
       = [\<lparr>b_category = ''Food'', limit_paisa = 500000, period = ''monthly''\<rparr>]"
    using budgets_one_per_category_upsert [of "[]" empty_world "''Food''" 500000 False] n
    by (simp add: food_budget_world_def empty_world_def)
  have e: "budget_exists food_budget_world ''Food''"
    by (simp add: budget_exists_def read_budgets_def b)
  from budgets_one_per_category_upsert [of "budgets_file food_budget_world" food_budget_world "''Food''" 700000] r e
  have d: "distinct (map b_category (budgets_file food_budget_world))"
    and s: "set_budget food_budget_world (Some ''Food'') True (Some 700000)
            = snd (update_budget food_budget_world ''Food'' 700000)"
    by simp_all
  have "budgets_file (snd (update_budget food_budget_world ''Food'' 700000))
       = [\<lparr>b_category = ''Food'', limit_paisa = 700000, period = ''monthly''\<rparr>]"
    by (simp add: update_budget_def read_budgets_def b)
  with r b e s show ?thesis by simp
qed

text \<open>
  \<^verbatim>\<open>write_budget\<close> itself appends without looking: it is \<^verbatim>\<open>set_budget\<close> that calls
  it only when \<^verbatim>\<open>budget_exists\<close> is false.
\<close>

lemma write_budget_appends_unconditionally:
  "map b_category (budgets_file (snd (write_budget food_budget_world ''Food'' 700000 ''monthly'')))
   = [''Food'', ''Food'']"
  by (simp add: write_budget_def food_budget_world_def set_budget_def budget_exists_def
      read_budgets_def empty_world_def)

end
